theory Spec2Isabelle
  imports Main
begin

section \<open>JavaScript values used by the login screen\<close>

text \<open>
  The parsed response body (\<^verbatim>\<open>await response.json()\<close>) has type \<^verbatim>\<open>any\<close>. It is a JSON
  value; reading a missing property yields \<^verbatim>\<open>undefined\<close>. Objects are association
  lists in insertion order with distinct keys, as \<^verbatim>\<open>JSON.parse\<close> produces them. Numbers
  are restricted to integers, strings to lists of bytes.
\<close>

datatype jsval = JUndefined | JNull | JBool bool | JNum int | JStr string
  | JArr "jsval list" | JObj "(string \<times> jsval) list"

datatype js_error = TypeError | SyntaxError | StorageError

text \<open>Truthiness, as used by \<^verbatim>\<open>!x\<close>, \<^verbatim>\<open>a && b\<close> and \<^verbatim>\<open>a || b\<close>.\<close>

fun truthy :: "jsval \<Rightarrow> bool" where
  "truthy JUndefined = False"
| "truthy JNull = False"
| "truthy (JBool b) = b"
| "truthy (JNum n) = (n \<noteq> 0)"
| "truthy (JStr s) = (s \<noteq> [])"
| "truthy (JArr xs) = True"
| "truthy (JObj kvs) = True"

text \<open>Truthiness of a \<^verbatim>\<open>string | null\<close> read from storage.\<close>

fun truthy_str :: "string option \<Rightarrow> bool" where
  "truthy_str None = False"
| "truthy_str (Some s) = (s \<noteq> [])"

text \<open>A \<^verbatim>\<open>string | null\<close> inside a template literal.\<close>

fun template_str :: "string option \<Rightarrow> string" where
  "template_str None = ''null''"
| "template_str (Some s) = s"

text \<open>
  Property access \<^verbatim>\<open>v.k\<close> (and destructuring): a \<^verbatim>\<open>TypeError\<close> on \<^verbatim>\<open>null\<close> and
  \<^verbatim>\<open>undefined\<close>, the stored value on an object, \<^verbatim>\<open>undefined\<close> otherwise (none of the
  property names the screen reads is built into a primitive or an array).
\<close>

fun get_prop :: "jsval \<Rightarrow> string \<Rightarrow> js_error + jsval" where
  "get_prop JUndefined k = Inl TypeError"
| "get_prop JNull k = Inl TypeError"
| "get_prop (JObj kvs) k = (case map_of kvs k of None \<Rightarrow> Inr JUndefined | Some v \<Rightarrow> Inr v)"
| "get_prop v k = Inr JUndefined"

fun show_nat :: "nat \<Rightarrow> string" where
  "show_nat n =
     (if n < 10 then [''0123456789'' ! n]
      else show_nat (n div 10) @ [''0123456789'' ! (n mod 10)])"

definition show_int :: "int \<Rightarrow> string" where
  "show_int n = (if n < 0 then ''-'' @ show_nat (nat (- n)) else show_nat (nat n))"

fun commas :: "string list \<Rightarrow> string" where
  "commas [] = []"
| "commas [x] = x"
| "commas (x # y # ys) = x @ '','' @ commas (y # ys)"

definition hex_digit :: "nat \<Rightarrow> char" where
  "hex_digit n = ''0123456789abcdef'' ! n"

text \<open>The escapes of \<^verbatim>\<open>JSON.stringify\<close> inside a string.\<close>

definition quote_char :: "char \<Rightarrow> string" where
  "quote_char c =
     (if c = CHR 0x22 then [CHR 0x5C, CHR 0x22]
      else if c = CHR 0x5C then [CHR 0x5C, CHR 0x5C]
      else if c = CHR 0x08 then [CHR 0x5C, CHR ''b'']
      else if c = CHR 0x09 then [CHR 0x5C, CHR ''t'']
      else if c = CHR 0x0A then [CHR 0x5C, CHR ''n'']
      else if c = CHR 0x0C then [CHR 0x5C, CHR ''f'']
      else if c = CHR 0x0D then [CHR 0x5C, CHR ''r'']
      else if of_char c < (32::nat)
        then [CHR 0x5C, CHR ''u'', CHR ''0'', CHR ''0'',
              hex_digit (of_char c div 16), hex_digit (of_char c mod 16)]
      else [c])"

definition quote_string :: "string \<Rightarrow> string" where
  "quote_string s = [CHR 0x22] @ concat (map quote_char s) @ [CHR 0x22]"

text \<open>
  The text \<^verbatim>\<open>JSON.stringify\<close> prints: no white space, \<^verbatim>\<open>undefined\<close> printed as
  \<^verbatim>\<open>null\<close> inside an array and left out of an object.
\<close>

fun json_text :: "jsval \<Rightarrow> string" where
  "json_text JUndefined = ''null''"
| "json_text JNull = ''null''"
| "json_text (JBool b) = (if b then ''true'' else ''false'')"
| "json_text (JNum n) = show_int n"
| "json_text (JStr s) = quote_string s"
| "json_text (JArr xs) = ''['' @ commas (map json_text xs) @ '']''"
| "json_text (JObj kvs) =
     ''{'' @ commas (map (\<lambda>(k, v). quote_string k @ '':'' @ json_text v)
                      (filter (\<lambda>(k, v). v \<noteq> JUndefined) kvs)) @ ''}''"

text \<open>\<^verbatim>\<open>JSON.stringify(v)\<close>: \<^verbatim>\<open>undefined\<close> for \<^verbatim>\<open>undefined\<close>, a string otherwise.\<close>

definition JSON_stringify :: "jsval \<Rightarrow> jsval" where
  "JSON_stringify v = (case v of JUndefined \<Rightarrow> JUndefined | _ \<Rightarrow> JStr (json_text v))"

text \<open>String conversion inside a template literal.\<close>

fun to_string :: "jsval \<Rightarrow> string" where
  "to_string JUndefined = ''undefined''"
| "to_string JNull = ''null''"
| "to_string (JBool b) = (if b then ''true'' else ''false'')"
| "to_string (JNum n) = show_int n"
| "to_string (JStr s) = s"
| "to_string (JArr xs) =
     commas (map (\<lambda>x. if x = JUndefined \<or> x = JNull then [] else to_string x) xs)"
| "to_string (JObj kvs) = ''[object Object]''"

text \<open>\<^verbatim>\<open>String.prototype.trim\<close> on the ASCII white space characters.\<close>

definition is_space :: "char \<Rightarrow> bool" where
  "is_space c = (c = CHR 0x20 \<or> c = CHR 0x09 \<or> c = CHR 0x0A \<or> c = CHR 0x0B
                 \<or> c = CHR 0x0C \<or> c = CHR 0x0D)"

definition trim :: "string \<Rightarrow> string" where
  "trim s = rev (dropWhile is_space (rev (dropWhile is_space s)))"


section \<open>The outside world: network, storage, alerts, router\<close>

record request =
  http_method :: string
  url :: string
  headers :: "(string \<times> string) list"
  payload :: "string option"

text \<open>
  A response: its status and the outcome of \<^verbatim>\<open>response.json()\<close> (\<open>None\<close> when the
  body is not JSON and the call throws).
\<close>

record response =
  status :: nat
  body :: "jsval option"

definition ok :: "response \<Rightarrow> bool" where
  "ok r = (200 \<le> status r \<and> status r \<le> 299)"

datatype fetch_outcome = Rejected | Resolved response

datatype action = RouterReplace string

datatype button = Button string action

datatype alert = Alert string jsval "button list"

datatype nav_event = Replace string | Push string

datatype storage_op = MultiSet "(string \<times> jsval) list" | MultiRemove "string list"

datatype screen = LoadingScreen | LoginForm

text \<open>
  What the outside world answers during one run of a handler: whether each storage call
  throws, and what \<^verbatim>\<open>fetch\<close> gives for a request.
\<close>

record env =
  multiGet_throws :: bool
  multiSet_throws :: bool
  multiRemove_throws :: bool
  fetch :: "request \<Rightarrow> fetch_outcome"

text \<open>
  The component's state hooks, the device storage, the route the router was last asked
  for (\<open>None\<close> while it has not been asked), and logs of every observable effect in
  program order: what the component rendered after each change of a state hook, the alerts
  raised, the router calls, the requests sent, the storage writes issued and the console
  errors. When the router acts on a call is its own business and is not modelled.
\<close>

record state =
  username :: string
  password :: string
  isLoading :: bool
  showPassword :: bool
  isCheckingAuth :: bool
  storage :: "string \<rightharpoonup> string"
  route :: "string option"
  frames :: "screen list"
  alerts :: "alert list"
  nav :: "nav_event list"
  requests :: "request list"
  storage_ops :: "storage_op list"
  console :: "string list"

text \<open>The component's render function: the loading screen while checking, else the form.\<close>

definition view :: "state \<Rightarrow> screen" where
  "view s = (if isCheckingAuth s then LoadingScreen else LoginForm)"

definition render :: "state \<Rightarrow> state" where
  "render s = s\<lparr>frames := frames s @ [view s]\<rparr>"

definition setUsername :: "string \<Rightarrow> state \<Rightarrow> state" where
  "setUsername v s = render (s\<lparr>username := v\<rparr>)"

definition setPassword :: "string \<Rightarrow> state \<Rightarrow> state" where
  "setPassword v s = render (s\<lparr>password := v\<rparr>)"

definition setIsLoading :: "bool \<Rightarrow> state \<Rightarrow> state" where
  "setIsLoading b s = render (s\<lparr>isLoading := b\<rparr>)"

definition setShowPassword :: "bool \<Rightarrow> state \<Rightarrow> state" where
  "setShowPassword b s = render (s\<lparr>showPassword := b\<rparr>)"

definition setIsCheckingAuth :: "bool \<Rightarrow> state \<Rightarrow> state" where
  "setIsCheckingAuth b s = render (s\<lparr>isCheckingAuth := b\<rparr>)"

definition router_replace :: "string \<Rightarrow> state \<Rightarrow> state" where
  "router_replace p s = s\<lparr>route := Some p, nav := nav s @ [Replace p]\<rparr>"

definition router_push :: "string \<Rightarrow> state \<Rightarrow> state" where
  "router_push p s = s\<lparr>route := Some p, nav := nav s @ [Push p]\<rparr>"

definition Alert_alert :: "string \<Rightarrow> jsval \<Rightarrow> button list \<Rightarrow> state \<Rightarrow> state" where
  "Alert_alert title msg bs s = s\<lparr>alerts := alerts s @ [Alert title msg bs]\<rparr>"

definition console_error :: "string \<Rightarrow> state \<Rightarrow> state" where
  "console_error msg s = s\<lparr>console := console s @ [msg]\<rparr>"

definition do_fetch :: "env \<Rightarrow> request \<Rightarrow> state \<Rightarrow> fetch_outcome \<times> state" where
  "do_fetch e r s = (fetch e r, s\<lparr>requests := requests s @ [r]\<rparr>)"

text \<open>
  \<^verbatim>\<open>AsyncStorage\<close>: string keys, string values. A call that throws leaves the storage
  as it was. \<^verbatim>\<open>multiSet\<close> also throws on a value that is not a string.
\<close>

definition multiGet :: "env \<Rightarrow> string list \<Rightarrow> state \<Rightarrow> js_error + (string \<times> string option) list" where
  "multiGet e ks s =
     (if multiGet_throws e then Inl StorageError else Inr (map (\<lambda>k. (k, storage s k)) ks))"

fun string_value :: "jsval \<Rightarrow> string option" where
  "string_value (JStr s) = Some s"
| "string_value v = None"

fun write_all :: "(string \<times> jsval) list \<Rightarrow> (string \<rightharpoonup> string) \<Rightarrow> (string \<rightharpoonup> string)" where
  "write_all [] m = m"
| "write_all ((k, v) # kvs) m = write_all kvs (m(k := string_value v))"

definition multiSet :: "env \<Rightarrow> (string \<times> jsval) list \<Rightarrow> state \<Rightarrow> bool \<times> state" where
  "multiSet e kvs s =
     (let s' = s\<lparr>storage_ops := storage_ops s @ [MultiSet kvs]\<rparr>
      in if multiSet_throws e \<or> (\<exists>kv \<in> set kvs. string_value (snd kv) = None)
         then (True, s')
         else (False, s'\<lparr>storage := write_all kvs (storage s')\<rparr>))"

fun remove_all :: "string list \<Rightarrow> (string \<rightharpoonup> string) \<Rightarrow> (string \<rightharpoonup> string)" where
  "remove_all [] m = m"
| "remove_all (k # ks) m = remove_all ks (m(k := None))"

definition multiRemove :: "env \<Rightarrow> string list \<Rightarrow> state \<Rightarrow> bool \<times> state" where
  "multiRemove e ks s =
     (let s' = s\<lparr>storage_ops := storage_ops s @ [MultiRemove ks]\<rparr>
      in if multiRemove_throws e then (True, s')
         else (False, s'\<lparr>storage := remove_all ks (storage s')\<rparr>))"


section \<open>The session bootstrapper\<close>

definition auth_keys :: "string list" where
  "auth_keys = [''access_token'', ''token_type'', ''user_data'']"

definition tabs :: string where
  "tabs = ''/(tabs)''"

definition verify_request :: "string option \<Rightarrow> string option \<Rightarrow> request" where
  "verify_request tokenType accessToken =
     \<lparr>http_method = ''GET'',
      url = ''http://192.168.1.20:5000/auth/verify-token'',
      headers = [(''Authorization'', template_str tokenType @ '' '' @ template_str accessToken),
                 (''Content-Type'', ''application/json'')],
      payload = None\<rparr>"

text \<open>
  \<^verbatim>\<open>checkExistingAuth\<close>. The outer \<^verbatim>\<open>catch\<close> takes a throwing \<^verbatim>\<open>multiGet\<close>. The
  inner \<^verbatim>\<open>try\<close> block holds the \<^verbatim>\<open>fetch\<close> and, in its \<^verbatim>\<open>else\<close> branch, the
  \<^verbatim>\<open>multiRemove\<close>: when either throws, \<^verbatim>\<open>catch (verifyError)\<close> redirects. The
  \<^verbatim>\<open>finally\<close> block runs on every path, also after the \<^verbatim>\<open>return\<close>s.
\<close>

definition checkExistingAuth :: "env \<Rightarrow> state \<Rightarrow> state" where
  "checkExistingAuth e st =
     (let s0 = setIsCheckingAuth True st;
          s' = (case multiGet e auth_keys s0 of
                  Inl error \<Rightarrow> console_error ''Error checking existing auth:'' s0
                | Inr authData \<Rightarrow>
                    let accessToken = snd (authData ! 0);
                        tokenType = snd (authData ! 1);
                        userData = snd (authData ! 2)
                    in if truthy_str accessToken \<and> truthy_str tokenType \<and> truthy_str userData
                       then (case do_fetch e (verify_request tokenType accessToken) s0 of
                               (Rejected, s1) \<Rightarrow> router_replace tabs s1
                             | (Resolved response, s1) \<Rightarrow>
                                 if ok response then router_replace tabs s1
                                 else (case multiRemove e auth_keys s1 of
                                         (True, s2) \<Rightarrow> router_replace tabs s2
                                       | (False, s2) \<Rightarrow> s2))
                       else s0)
      in setIsCheckingAuth False s')"


section \<open>The login submitter\<close>

definition login_request :: "string \<Rightarrow> request" where
  "login_request text =
     \<lparr>http_method = ''POST'',
      url = ''http://192.168.1.20:5000/auth/login'',
      headers = [(''Content-Type'', ''application/json'')],
      payload = Some text\<rparr>"

text \<open>The outer \<^verbatim>\<open>catch (error)\<close> block of \<^verbatim>\<open>handleLogin\<close>.\<close>

definition login_catch :: "state \<Rightarrow> state" where
  "login_catch s =
     Alert_alert ''Error'' (JStr ''Network error. Please check your connection and try again.'') []
       (console_error ''Login error:'' s)"

text \<open>The inner \<^verbatim>\<open>catch (storageError)\<close> block.\<close>

definition storage_catch :: "state \<Rightarrow> state" where
  "storage_catch s =
     Alert_alert ''Warning'' (JStr ''Login successful but failed to store session data'') []
       (console_error ''Error storing authentication data:'' s)"

text \<open>The three pairs handed to \<^verbatim>\<open>AsyncStorage.multiSet\<close>.\<close>

definition session_entries :: "jsval \<Rightarrow> jsval \<Rightarrow> jsval \<Rightarrow> (string \<times> jsval) list" where
  "session_entries access_token token_type user =
     [(''access_token'', access_token), (''token_type'', token_type),
      (''user_data'', JSON_stringify user)]"

text \<open>
  \<^verbatim>\<open>handleLogin\<close>. The validation returns before the \<^verbatim>\<open>try\<close>; everything after
  \<^verbatim>\<open>setIsLoading(true)\<close> is inside it, so the \<^verbatim>\<open>finally\<close> block ends every other path.
  Destructuring \<^verbatim>\<open>data\<close> and reading \<^verbatim>\<open>data.error\<close> throw into the outer \<^verbatim>\<open>catch\<close>;
  the template literal \<^verbatim>\<open>${user.username}\<close> is evaluated inside the inner \<^verbatim>\<open>try\<close>.
\<close>

definition handleLogin :: "env \<Rightarrow> state \<Rightarrow> state" where
  "handleLogin e st =
     (if username st = [] \<or> password st = [] then
        Alert_alert ''Error'' (JStr ''Please enter both username and password'') [] st
      else
        let s1 = setIsLoading True st;
            payload = JObj [(''username'', JStr (trim (username st))),
                            (''password'', JStr (password st))];
            s3 = (case do_fetch e (login_request (json_text payload)) s1 of
                    (Rejected, s2) \<Rightarrow> login_catch s2
                  | (Resolved response, s2) \<Rightarrow>
                      (case body response of
                         None \<Rightarrow> login_catch s2
                       | Some data \<Rightarrow>
                           if ok response then
                             (case (get_prop data ''access_token'', get_prop data ''token_type'',
                                    get_prop data ''user'') of
                                (Inr access_token, Inr token_type, Inr user) \<Rightarrow>
                                  (case multiSet e (session_entries access_token token_type user) s2 of
                                     (True, s) \<Rightarrow> storage_catch s
                                   | (False, s) \<Rightarrow>
                                       (case get_prop user ''username'' of
                                          Inl error \<Rightarrow> storage_catch s
                                        | Inr name \<Rightarrow>
                                            Alert_alert ''Success''
                                              (JStr (''Welcome back, '' @ to_string name @ ''!''))
                                              [Button ''OK'' (RouterReplace tabs)] s))
                              | _ \<Rightarrow> login_catch s2)
                           else
                             (case get_prop data ''error'' of
                                Inl error \<Rightarrow> login_catch s2
                              | Inr err \<Rightarrow>
                                  setPassword []
                                    (Alert_alert ''Error''
                                       (if truthy err then err
                                        else JStr ''Login failed. Please try again.'') [] s2))))
        in setIsLoading False s3)"


section \<open>The other handlers and the screen as a whole\<close>

text \<open>Pressing a button of an alert runs its \<^verbatim>\<open>onPress\<close>.\<close>

fun onPress :: "button \<Rightarrow> state \<Rightarrow> state" where
  "onPress (Button label (RouterReplace p)) s = router_replace p s"

definition handleForgotPassword :: "state \<Rightarrow> state" where
  "handleForgotPassword s = router_push ''/forgot-password'' s"

definition handleSignUp :: "state \<Rightarrow> state" where
  "handleSignUp s = router_push ''/signup'' s"

definition togglePasswordVisibility :: "state \<Rightarrow> state" where
  "togglePasswordVisibility s = setShowPassword (\<not> showPassword s) s"

text \<open>The state of the screen when it mounts over a given device storage.\<close>

definition mounted :: "(string \<rightharpoonup> string) \<Rightarrow> state" where
  "mounted m =
     \<lparr>username = [], password = [], isLoading = False, showPassword = False,
      isCheckingAuth = True, storage = m, route = None, frames = [LoadingScreen],
      alerts = [], nav = [], requests = [], storage_ops = [], console = []\<rparr>"

text \<open>
  Everything that can happen to the screen: the mount effect, typing into the two inputs
  (\<^verbatim>\<open>editable={!isLoading}\<close>), the four touchables (\<^verbatim>\<open>disabled={isLoading}\<close>) and a
  button of an alert that was raised.
\<close>

datatype event = MountEffect | TypeUsername string | TypePassword string | PressEye
  | PressForgotPassword | PressLogin | PressSignUp | PressAlertButton button

fun dispatch :: "env \<Rightarrow> event \<Rightarrow> state \<Rightarrow> state" where
  "dispatch e MountEffect s = checkExistingAuth e s"
| "dispatch e (TypeUsername v) s = (if isLoading s then s else setUsername v s)"
| "dispatch e (TypePassword v) s = (if isLoading s then s else setPassword v s)"
| "dispatch e PressEye s = (if isLoading s then s else togglePasswordVisibility s)"
| "dispatch e PressForgotPassword s = (if isLoading s then s else handleForgotPassword s)"
| "dispatch e PressLogin s = (if isLoading s then s else handleLogin e s)"
| "dispatch e PressSignUp s = (if isLoading s then s else handleSignUp s)"
| "dispatch e (PressAlertButton b) s =
     (if \<exists>a \<in> set (alerts s). case a of Alert title msg bs \<Rightarrow> b \<in> set bs
      then onPress b s else s)"

fun run :: "(env \<times> event) list \<Rightarrow> state \<Rightarrow> state" where
  "run [] s = s"
| "run ((e, ev) # evs) s = run evs (dispatch e ev s)"

text \<open>The session triple is stored whole or not at all.\<close>

definition all_or_none :: "(string \<rightharpoonup> string) \<Rightarrow> bool" where
  "all_or_none m = ((\<forall>k \<in> set auth_keys. m k \<noteq> None) \<or> (\<forall>k \<in> set auth_keys. m k = None))"

text \<open>A storage write the screen may issue: the three session keys set, or removed.\<close>

fun session_op :: "storage_op \<Rightarrow> bool" where
  "session_op (MultiSet kvs) = (map fst kvs = auth_keys)"
| "session_op (MultiRemove ks) = (ks = auth_keys)"

text \<open>What a handler added to a log.\<close>

definition added :: "'a list \<Rightarrow> 'a list \<Rightarrow> 'a list" where
  "added before after = drop (length before) after"


text \<open>
  How a handler may change the storage between the state \<open>s\<close> it starts in and the state
  \<open>s'\<close> it ends in: the writes it issues are writes of the session triple, and the
  storage is as before, or holds all three keys, or holds none of them.
\<close>

definition session_step :: "state \<Rightarrow> state \<Rightarrow> bool" where
  "session_step s s' \<longleftrightarrow>
     (\<exists>new. storage_ops s' = storage_ops s @ new \<and> list_all session_op new)
     \<and> (storage s' = storage s
        \<or> (\<forall>k \<in> set auth_keys. storage s' k \<noteq> None)
        \<or> (\<forall>k \<in> set auth_keys. storage s' k = None))"


section \<open>Concrete worlds and screens\<close>

text \<open>A device without network: every \<^verbatim>\<open>fetch\<close> throws; the storage works.\<close>

definition offline :: env where
  "offline = \<lparr>multiGet_throws = False, multiSet_throws = False, multiRemove_throws = False,
              fetch = (\<lambda>req. Rejected)\<rparr>"

text \<open>A server that answers every request with the same response; the storage works.\<close>

definition server :: "response \<Rightarrow> env" where
  "server r = \<lparr>multiGet_throws = False, multiSet_throws = False, multiRemove_throws = False,
               fetch = (\<lambda>req. Resolved r)\<rparr>"

text \<open>The same server on a device whose storage writes throw.\<close>

definition server_disk_full :: "response \<Rightarrow> env" where
  "server_disk_full r = (server r)\<lparr>multiSet_throws := True\<rparr>"

text \<open>The same server on a device whose storage removals throw.\<close>

definition server_remove_fails :: "response \<Rightarrow> env" where
  "server_remove_fails r = (server r)\<lparr>multiRemove_throws := True\<rparr>"

definition stored_session :: "string \<Rightarrow> string \<Rightarrow> string \<Rightarrow> (string \<rightharpoonup> string)" where
  "stored_session a t u = [''access_token'' \<mapsto> a, ''token_type'' \<mapsto> t, ''user_data'' \<mapsto> u]"

text \<open>
  The login form on a device with an empty storage, after the mount effect has run and
  the user has typed a username and a password.
\<close>

definition filled_form :: "string \<Rightarrow> string \<Rightarrow> state" where
  "filled_form u p =
     run [(offline, MountEffect), (offline, TypeUsername u), (offline, TypePassword p)]
       (mounted Map.empty)"

text \<open>
  A visit to the screen: the stored session is refused by the server and removed, then
  the user logs in and a new session is stored.
\<close>

definition sample_visit :: "(env \<times> event) list" where
  "sample_visit =
     [(server \<lparr>status = 401, body = None\<rparr>, MountEffect),
      (offline, TypeUsername ''alice''),
      (offline, TypePassword ''secret''),
      (server \<lparr>status = 200,
               body = Some (JObj [(''access_token'', JStr ''t1''), (''token_type'', JStr ''Bearer''),
                                  (''user'', JObj [(''username'', JStr ''alice'')])])\<rparr>,
       PressLogin)]"

definition alice_body :: jsval where
  "alice_body =
     JObj [(''access_token'', JStr ''t1''), (''token_type'', JStr ''Bearer''),
           (''user'', JObj [(''username'', JStr ''alice'')])]"


section \<open>Auxiliary facts\<close>

lemmas effect_defs = render_def setUsername_def setPassword_def setIsLoading_def
  setShowPassword_def setIsCheckingAuth_def router_replace_def router_push_def Alert_alert_def
  console_error_def do_fetch_def multiGet_def multiSet_def multiRemove_def login_catch_def
  storage_catch_def

lemmas fixture_defs = offline_def server_def server_disk_full_def server_remove_fails_def
  stored_session_def
  filled_form_def mounted_def alice_body_def

lemma filled_form_fields:
  "username (filled_form u p) = u" "password (filled_form u p) = p"
  "\<not> isLoading (filled_form u p)" "\<not> isCheckingAuth (filled_form u p)"
  "route (filled_form u p) = None" "storage (filled_form u p) = Map.empty"
  "alerts (filled_form u p) = []" "nav (filled_form u p) = []"
  "requests (filled_form u p) = []" "storage_ops (filled_form u p) = []"
  by (simp_all add: fixture_defs checkExistingAuth_def effect_defs auth_keys_def Let_def)


section \<open>The login submitter: validation\<close>

text \<open>
  Claim C1, as the code has it. For every username and password of which one is the empty
  string (the strings as typed, nothing trimmed), \<^verbatim>\<open>handleLogin\<close> raises the alert
  "Please enter both username and password" and returns: no request is sent and nothing
  else of the state changes.
\<close>

theorem handleLogin_rejects_empty:
  assumes "username st = [] \<or> password st = []"
  shows "handleLogin e st =
           st\<lparr>alerts := alerts st @
                 [Alert ''Error'' (JStr ''Please enter both username and password'') []]\<rparr>
         \<and> requests (handleLogin e st) = requests st
         \<and> added (alerts st) (alerts (handleLogin e st)) =
             [Alert ''Error'' (JStr ''Please enter both username and password'') []]"
  using assms by (simp add: handleLogin_def Alert_alert_def added_def)

theorem handleLogin_rejects_empty_witness:
  "(username (filled_form ''alice'' []) = [] \<or> password (filled_form ''alice'' []) = [])
   \<and> requests (handleLogin offline (filled_form ''alice'' [])) = []
   \<and> alerts (handleLogin offline (filled_form ''alice'' [])) =
       [Alert ''Error'' (JStr ''Please enter both username and password'') []]"
proof -
  have h: "username (filled_form ''alice'' []) = [] \<or> password (filled_form ''alice'' []) = []"
    by (simp add: filled_form_fields)
  show ?thesis
    using h handleLogin_rejects_empty [OF h, of offline]
    by (simp add: filled_form_fields added_def)
qed

text \<open>
  Claim C1 as stated fails: the validation tests the strings as typed, so a username or a
  password made of spaces passes it and a request is sent (with the username trimmed to
  the empty string).
\<close>

theorem handleLogin_whitespace_counterexample:
  \<open>trim ''   '' = []
   \<and> requests (handleLogin offline (filled_form ''   '' ''secret'')) =
       [login_request ''{"username":"","password":"secret"}'']
   \<and> requests (handleLogin offline (filled_form ''alice'' ''   '')) =
       [login_request ''{"username":"alice","password":"   "}'']\<close>
  by (simp add: handleLogin_def filled_form_fields effect_defs offline_def Let_def trim_def
      is_space_def quote_string_def quote_char_def)


section \<open>The session bootstrapper: a stored session\<close>

text \<open>
  In the theorems of this section the stored session is what \<^verbatim>\<open>AsyncStorage.multiGet\<close>
  hands to the bootstrapper: the three keys with the values \<open>a\<close>, \<open>t\<close> and \<open>u\<close>. The
  verify request is only sent after that read has returned.
\<close>

text \<open>
  Claim C5, as the code has it. When the three keys \<^verbatim>\<open>access_token\<close>, \<^verbatim>\<open>token_type\<close>
  and \<^verbatim>\<open>user_data\<close> are stored with non-empty values and the verify-token request
  completes with a 2xx status, \<^verbatim>\<open>checkExistingAuth\<close> signals the redirect to the
  authenticated area (one \<^verbatim>\<open>router.replace('/(tabs)')\<close>) and leaves the storage as it
  was. Up to and including that router call the component has rendered the loading screen
  only; the run is then finished by the \<^verbatim>\<open>finally\<close> block, which clears
  \<^verbatim>\<open>isCheckingAuth\<close>, so that the component's last render is the login form.
\<close>

theorem checkExistingAuth_valid_session:
  assumes "multiGet e auth_keys st =
             Inr [(''access_token'', Some a), (''token_type'', Some t), (''user_data'', Some u)]"
    and "a \<noteq> []" and "t \<noteq> []" and "u \<noteq> []"
    and "fetch e (verify_request (Some t) (Some a)) = Resolved r" and "ok r"
  shows "added (nav st) (nav (checkExistingAuth e st)) = [Replace tabs]
         \<and> route (checkExistingAuth e st) = Some tabs
         \<and> storage (checkExistingAuth e st) = storage st
         \<and> checkExistingAuth e st =
             setIsCheckingAuth False (router_replace tabs
               (snd (do_fetch e (verify_request (Some t) (Some a)) (setIsCheckingAuth True st))))
         \<and> added (frames st) (frames (router_replace tabs
               (snd (do_fetch e (verify_request (Some t) (Some a)) (setIsCheckingAuth True st)))))
             = [LoadingScreen]
         \<and> added (frames st) (frames (checkExistingAuth e st)) = [LoadingScreen, LoginForm]"
  using assms
  by (auto simp: checkExistingAuth_def effect_defs Let_def added_def view_def auth_keys_def
      split: if_splits option.splits)

theorem checkExistingAuth_valid_session_witness:
  "multiGet (server \<lparr>status = 200, body = None\<rparr>) auth_keys
       (mounted (stored_session ''t1'' ''Bearer'' ''{}'')) =
     Inr [(''access_token'', Some ''t1''), (''token_type'', Some ''Bearer''),
          (''user_data'', Some ''{}'')]
   \<and> ok \<lparr>status = 200, body = None\<rparr>
   \<and> nav (checkExistingAuth (server \<lparr>status = 200, body = None\<rparr>)
            (mounted (stored_session ''t1'' ''Bearer'' ''{}''))) = [Replace ''/(tabs)'']
   \<and> storage (checkExistingAuth (server \<lparr>status = 200, body = None\<rparr>)
            (mounted (stored_session ''t1'' ''Bearer'' ''{}''))) =
       stored_session ''t1'' ''Bearer'' ''{}''"
proof -
  let ?e = "server \<lparr>status = 200, body = None\<rparr>"
  let ?st = "mounted (stored_session ''t1'' ''Bearer'' ''{}'')"
  have h1: "multiGet ?e auth_keys ?st =
      Inr [(''access_token'', Some ''t1''), (''token_type'', Some ''Bearer''),
           (''user_data'', Some ''{}'')]"
    by (simp add: multiGet_def fixture_defs auth_keys_def)
  have h2: "fetch ?e (verify_request (Some ''Bearer'') (Some ''t1'')) =
      Resolved \<lparr>status = 200, body = None\<rparr>"
    by (simp add: server_def)
  have h3: "ok \<lparr>status = 200, body = None\<rparr>"
    by (simp add: ok_def)
  have h4: "nav ?st = []" "storage ?st = stored_session ''t1'' ''Bearer'' ''{}''"
    by (simp_all add: mounted_def)
  have ne: "''t1'' \<noteq> []" "''Bearer'' \<noteq> []" "''{}'' \<noteq> []"
    by simp_all
  from checkExistingAuth_valid_session [OF h1 ne h2 h3]
  have "added (nav ?st) (nav (checkExistingAuth ?e ?st)) = [Replace tabs]
      \<and> storage (checkExistingAuth ?e ?st) = storage ?st"
    by blast
  then show ?thesis
    using h1 h3 h4 by (simp add: added_def tabs_def)
qed

text \<open>
  Claim C5 as stated fails in its last part: the \<^verbatim>\<open>finally\<close> block runs after the
  \<^verbatim>\<open>return\<close> that follows \<^verbatim>\<open>router.replace\<close> and clears \<^verbatim>\<open>isCheckingAuth\<close>, and the
  component renders the login form whenever that flag is clear.
\<close>

theorem checkExistingAuth_valid_session_counterexample:
  "multiGet (server \<lparr>status = 200, body = None\<rparr>) auth_keys
       (mounted (stored_session ''t1'' ''Bearer'' ''{}'')) =
     Inr [(''access_token'', Some ''t1''), (''token_type'', Some ''Bearer''),
          (''user_data'', Some ''{}'')]
   \<and> fetch (server \<lparr>status = 200, body = None\<rparr>)
        (verify_request (Some ''Bearer'') (Some ''t1'')) = Resolved \<lparr>status = 200, body = None\<rparr>
   \<and> ok \<lparr>status = 200, body = None\<rparr>
   \<and> nav (checkExistingAuth (server \<lparr>status = 200, body = None\<rparr>)
        (mounted (stored_session ''t1'' ''Bearer'' ''{}''))) = [Replace ''/(tabs)'']
   \<and> isCheckingAuth (checkExistingAuth (server \<lparr>status = 200, body = None\<rparr>)
        (mounted (stored_session ''t1'' ''Bearer'' ''{}''))) = False
   \<and> view (checkExistingAuth (server \<lparr>status = 200, body = None\<rparr>)
        (mounted (stored_session ''t1'' ''Bearer'' ''{}''))) = LoginForm
   \<and> frames (checkExistingAuth (server \<lparr>status = 200, body = None\<rparr>)
        (mounted (stored_session ''t1'' ''Bearer'' ''{}''))) =
       [LoadingScreen, LoadingScreen, LoginForm]"
  by (simp add: checkExistingAuth_def effect_defs Let_def view_def auth_keys_def fixture_defs
      ok_def tabs_def)

text \<open>
  On the path where the removal of the keys works: when the three keys are stored with
  non-empty values and the verify-token request completes with a status outside 2xx,
  \<^verbatim>\<open>checkExistingAuth\<close> issues one storage write, the removal of the three keys, after
  which none of them is stored; it makes no router call, and it ends on the login form.
\<close>

lemma checkExistingAuth_invalid_session:
  assumes "multiGet e auth_keys st =
             Inr [(''access_token'', Some a), (''token_type'', Some t), (''user_data'', Some u)]"
    and "a \<noteq> []" and "t \<noteq> []" and "u \<noteq> []"
    and "fetch e (verify_request (Some t) (Some a)) = Resolved r" and "\<not> ok r"
    and "\<not> multiRemove_throws e"
  shows "added (storage_ops st) (storage_ops (checkExistingAuth e st)) = [MultiRemove auth_keys]
         \<and> (\<forall>k \<in> set auth_keys. storage (checkExistingAuth e st) k = None)
         \<and> nav (checkExistingAuth e st) = nav st
         \<and> route (checkExistingAuth e st) = route st
         \<and> \<not> isCheckingAuth (checkExistingAuth e st)
         \<and> (route st = None \<longrightarrow>
              view (checkExistingAuth e st) = LoginForm
              \<and> last (frames (checkExistingAuth e st)) = LoginForm)"
  using assms
  by (auto simp: checkExistingAuth_def effect_defs Let_def added_def view_def auth_keys_def
      split: if_splits option.splits)

text \<open>
  Claim C6 says that after a verify-token answer outside 2xx the three keys are deleted
  and the login form is shown without a redirect. The code misses this when the removal
  itself throws: \<^verbatim>\<open>multiRemove\<close> is awaited inside the \<^verbatim>\<open>try\<close> block whose
  \<^verbatim>\<open>catch (verifyError)\<close> redirects. For every non-empty stored session, a status outside
  2xx and a throwing removal, \<^verbatim>\<open>checkExistingAuth\<close> signals the redirect to the
  authenticated area and the three keys stay stored.
\<close>

theorem checkExistingAuth_remove_throws:
  assumes "multiGet e auth_keys st =
             Inr [(''access_token'', Some a), (''token_type'', Some t), (''user_data'', Some u)]"
    and "a \<noteq> []" and "t \<noteq> []" and "u \<noteq> []"
    and "fetch e (verify_request (Some t) (Some a)) = Resolved r" and "\<not> ok r"
    and "multiRemove_throws e"
  shows "added (storage_ops st) (storage_ops (checkExistingAuth e st)) = [MultiRemove auth_keys]
         \<and> added (nav st) (nav (checkExistingAuth e st)) = [Replace tabs]
         \<and> storage (checkExistingAuth e st) = storage st
         \<and> storage (checkExistingAuth e st) ''access_token'' = Some a
         \<and> storage (checkExistingAuth e st) ''token_type'' = Some t
         \<and> storage (checkExistingAuth e st) ''user_data'' = Some u"
  using assms
  by (auto simp: checkExistingAuth_def effect_defs Let_def added_def auth_keys_def
      split: if_splits option.splits)

theorem checkExistingAuth_remove_throws_witness:
  "multiGet (server_remove_fails \<lparr>status = 401, body = None\<rparr>) auth_keys
       (mounted (stored_session ''t1'' ''Bearer'' ''{}'')) =
     Inr [(''access_token'', Some ''t1''), (''token_type'', Some ''Bearer''),
          (''user_data'', Some ''{}'')]
   \<and> fetch (server_remove_fails \<lparr>status = 401, body = None\<rparr>)
        (verify_request (Some ''Bearer'') (Some ''t1'')) = Resolved \<lparr>status = 401, body = None\<rparr>
   \<and> \<not> ok \<lparr>status = 401, body = None\<rparr>
   \<and> multiRemove_throws (server_remove_fails \<lparr>status = 401, body = None\<rparr>)
   \<and> nav (checkExistingAuth (server_remove_fails \<lparr>status = 401, body = None\<rparr>)
        (mounted (stored_session ''t1'' ''Bearer'' ''{}''))) = [Replace ''/(tabs)'']
   \<and> storage (checkExistingAuth (server_remove_fails \<lparr>status = 401, body = None\<rparr>)
        (mounted (stored_session ''t1'' ''Bearer'' ''{}''))) ''access_token'' = Some ''t1''
   \<and> storage (checkExistingAuth (server_remove_fails \<lparr>status = 401, body = None\<rparr>)
        (mounted (stored_session ''t1'' ''Bearer'' ''{}''))) ''token_type'' = Some ''Bearer''
   \<and> storage (checkExistingAuth (server_remove_fails \<lparr>status = 401, body = None\<rparr>)
        (mounted (stored_session ''t1'' ''Bearer'' ''{}''))) ''user_data'' = Some ''{}''"
proof -
  let ?e = "server_remove_fails \<lparr>status = 401, body = None\<rparr>"
  let ?st = "mounted (stored_session ''t1'' ''Bearer'' ''{}'')"
  have h1: "multiGet ?e auth_keys ?st =
      Inr [(''access_token'', Some ''t1''), (''token_type'', Some ''Bearer''),
           (''user_data'', Some ''{}'')]"
    by (simp add: multiGet_def fixture_defs auth_keys_def)
  have h2: "fetch ?e (verify_request (Some ''Bearer'') (Some ''t1'')) =
      Resolved \<lparr>status = 401, body = None\<rparr>"
    by (simp add: server_remove_fails_def server_def)
  have h3: "\<not> ok \<lparr>status = 401, body = None\<rparr>"
    by (simp add: ok_def)
  have h4: "multiRemove_throws ?e"
    by (simp add: server_remove_fails_def)
  have h5: "nav ?st = []"
    by (simp add: mounted_def)
  show ?thesis
    using h1 h2 h3 h4 h5 checkExistingAuth_remove_throws [OF h1 _ _ _ h2 h3 h4]
    by (simp add: added_def tabs_def mounted_def stored_session_def)
qed

text \<open>
  Claim C2. When the three keys are stored and the verify-token request that the run sends
  throws, \<^verbatim>\<open>checkExistingAuth\<close> signals the redirect to the authenticated area exactly as
  it does after a 2xx answer, issues no storage write and leaves the storage as it was. The
  request that threw is the verify-token request built from the stored token type and
  access token.
\<close>

theorem checkExistingAuth_verify_throws:
  assumes "storage st ''access_token'' = Some a"
    and "storage st ''token_type'' = Some t"
    and "storage st ''user_data'' = Some u"
    and "req \<in> set (added (requests st) (requests (checkExistingAuth e st)))"
    and "fetch e req = Rejected"
  shows "added (nav st) (nav (checkExistingAuth e st)) = [Replace tabs]
         \<and> route (checkExistingAuth e st) = Some tabs
         \<and> storage (checkExistingAuth e st) = storage st
         \<and> storage_ops (checkExistingAuth e st) = storage_ops st
         \<and> req = verify_request (Some t) (Some a)"
proof -
  have sent: "added (requests st) (requests (checkExistingAuth e st)) =
      (if \<not> multiGet_throws e \<and> a \<noteq> [] \<and> t \<noteq> [] \<and> u \<noteq> []
       then [verify_request (Some t) (Some a)] else [])"
    using assms(1-3)
    by (auto simp: checkExistingAuth_def effect_defs Let_def added_def auth_keys_def
        split: fetch_outcome.splits)
  with assms(4) have req: "req = verify_request (Some t) (Some a)"
    and read: "\<not> multiGet_throws e" "a \<noteq> []" "t \<noteq> []" "u \<noteq> []"
    by (auto split: if_splits)
  show ?thesis
    using assms(1-3) assms(5) read unfolding req
    by (simp add: checkExistingAuth_def effect_defs Let_def added_def auth_keys_def)
qed

theorem checkExistingAuth_verify_throws_witness:
  "storage (mounted (stored_session ''t1'' ''Bearer'' ''{}'')) ''access_token'' = Some ''t1''
   \<and> storage (mounted (stored_session ''t1'' ''Bearer'' ''{}'')) ''token_type'' = Some ''Bearer''
   \<and> storage (mounted (stored_session ''t1'' ''Bearer'' ''{}'')) ''user_data'' = Some ''{}''
   \<and> requests (checkExistingAuth offline (mounted (stored_session ''t1'' ''Bearer'' ''{}''))) =
       [verify_request (Some ''Bearer'') (Some ''t1'')]
   \<and> fetch offline (verify_request (Some ''Bearer'') (Some ''t1'')) = Rejected
   \<and> nav (checkExistingAuth offline (mounted (stored_session ''t1'' ''Bearer'' ''{}''))) =
       [Replace ''/(tabs)'']
   \<and> storage (checkExistingAuth offline (mounted (stored_session ''t1'' ''Bearer'' ''{}''))) =
       stored_session ''t1'' ''Bearer'' ''{}''
   \<and> storage_ops (checkExistingAuth offline (mounted (stored_session ''t1'' ''Bearer'' ''{}''))) = []"
proof -
  let ?st = "mounted (stored_session ''t1'' ''Bearer'' ''{}'')"
  let ?req = "verify_request (Some ''Bearer'') (Some ''t1'')"
  have h1: "storage ?st ''access_token'' = Some ''t1''"
    "storage ?st ''token_type'' = Some ''Bearer''"
    "storage ?st ''user_data'' = Some ''{}''"
    by (simp_all add: fixture_defs)
  have sent: "requests (checkExistingAuth offline ?st) = [?req]"
    by (simp add: checkExistingAuth_def effect_defs Let_def auth_keys_def fixture_defs)
  have h2: "?req \<in> set (added (requests ?st) (requests (checkExistingAuth offline ?st)))"
    unfolding sent by (simp add: added_def mounted_def)
  have h3: "fetch offline ?req = Rejected"
    by (simp add: offline_def)
  have h4: "nav ?st = []" "storage ?st = stored_session ''t1'' ''Bearer'' ''{}''"
    "storage_ops ?st = []"
    by (simp_all add: mounted_def)
  show ?thesis
    using h1 sent h3 h4 checkExistingAuth_verify_throws [OF h1 h2 h3]
    by (simp add: added_def tabs_def)
qed

text \<open>
  A key stored with the empty string counts as missing for the guard
  \<^verbatim>\<open>accessToken && tokenType && userData\<close>: no verify request is sent, and the bootstrapper
  ends on the login form without a router call.
\<close>

lemma checkExistingAuth_empty_token:
  "storage (mounted (stored_session [] ''Bearer'' ''{}'')) ''access_token'' = Some []
   \<and> requests (checkExistingAuth offline (mounted (stored_session [] ''Bearer'' ''{}''))) = []
   \<and> nav (checkExistingAuth offline (mounted (stored_session [] ''Bearer'' ''{}''))) = []
   \<and> view (checkExistingAuth offline (mounted (stored_session [] ''Bearer'' ''{}''))) = LoginForm"
  by (simp add: checkExistingAuth_def effect_defs Let_def view_def auth_keys_def fixture_defs)

text \<open>
  Claim C9. Two runs of \<^verbatim>\<open>checkExistingAuth\<close> in succession, the second on the state
  the first one left, against a verify endpoint that answers every request with a 2xx
  status (and a storage that reads the same way in both runs): the second run makes the
  same router calls as the first, and the first leaves the storage as it was. With a
  non-empty session stored and readable, both runs signal the redirect.
\<close>

theorem checkExistingAuth_twice:
  assumes "\<forall>req. \<exists>r. fetch e1 req = Resolved r \<and> ok r"
    and "\<forall>req. \<exists>r. fetch e2 req = Resolved r \<and> ok r"
    and "multiGet_throws e1 = multiGet_throws e2"
  shows "added (nav (checkExistingAuth e1 st))
             (nav (checkExistingAuth e2 (checkExistingAuth e1 st)))
           = added (nav st) (nav (checkExistingAuth e1 st))
         \<and> storage (checkExistingAuth e1 st) = storage st
         \<and> storage (checkExistingAuth e2 (checkExistingAuth e1 st)) = storage st
         \<and> (\<not> multiGet_throws e1 \<and> truthy_str (storage st ''access_token'')
              \<and> truthy_str (storage st ''token_type'') \<and> truthy_str (storage st ''user_data'')
            \<longrightarrow> added (nav st) (nav (checkExistingAuth e1 st)) = [Replace tabs])"
proof -
  obtain r1 where r1:
    "fetch e1 (verify_request (storage st ''token_type'') (storage st ''access_token'')) = Resolved r1"
    "ok r1"
    using assms(1) by blast
  obtain r2 where r2:
    "fetch e2 (verify_request (storage st ''token_type'') (storage st ''access_token'')) = Resolved r2"
    "ok r2"
    using assms(2) by blast
  show ?thesis
    using r1 r2 assms(3)
    by (auto simp: checkExistingAuth_def effect_defs Let_def added_def auth_keys_def
        split: if_splits option.splits)
qed

theorem checkExistingAuth_twice_witness:
  "(\<forall>req. \<exists>r. fetch (server \<lparr>status = 200, body = None\<rparr>) req = Resolved r \<and> ok r)
   \<and> added (nav (mounted (stored_session ''t1'' ''Bearer'' ''{}'')))
        (nav (checkExistingAuth (server \<lparr>status = 200, body = None\<rparr>)
          (mounted (stored_session ''t1'' ''Bearer'' ''{}'')))) = [Replace ''/(tabs)'']
   \<and> added (nav (checkExistingAuth (server \<lparr>status = 200, body = None\<rparr>)
          (mounted (stored_session ''t1'' ''Bearer'' ''{}''))))
        (nav (checkExistingAuth (server \<lparr>status = 200, body = None\<rparr>)
          (checkExistingAuth (server \<lparr>status = 200, body = None\<rparr>)
            (mounted (stored_session ''t1'' ''Bearer'' ''{}''))))) = [Replace ''/(tabs)'']
   \<and> storage (checkExistingAuth (server \<lparr>status = 200, body = None\<rparr>)
        (checkExistingAuth (server \<lparr>status = 200, body = None\<rparr>)
          (mounted (stored_session ''t1'' ''Bearer'' ''{}'')))) =
       stored_session ''t1'' ''Bearer'' ''{}''"
proof -
  let ?e = "server \<lparr>status = 200, body = None\<rparr>"
  let ?st = "mounted (stored_session ''t1'' ''Bearer'' ''{}'')"
  have h: "\<forall>req. \<exists>r. fetch ?e req = Resolved r \<and> ok r"
    by (simp add: server_def ok_def)
  have g: "\<not> multiGet_throws ?e \<and> truthy_str (storage ?st ''access_token'')
      \<and> truthy_str (storage ?st ''token_type'') \<and> truthy_str (storage ?st ''user_data'')"
    by (simp add: fixture_defs)
  have m: "storage ?st = stored_session ''t1'' ''Bearer'' ''{}''"
    by (simp add: mounted_def)
  note twice = checkExistingAuth_twice [OF h h refl, of ?st]
  from twice g have first:
    "added (nav ?st) (nav (checkExistingAuth ?e ?st)) = [Replace ''/(tabs)'']"
    unfolding tabs_def by blast
  from twice have second:
    "added (nav (checkExistingAuth ?e ?st)) (nav (checkExistingAuth ?e (checkExistingAuth ?e ?st)))
       = added (nav ?st) (nav (checkExistingAuth ?e ?st))"
    by blast
  from twice have third: "storage (checkExistingAuth ?e (checkExistingAuth ?e ?st)) = storage ?st"
    by blast
  show ?thesis
    using h first second third m by simp
qed


section \<open>The login submitter: responses\<close>

text \<open>
  In the theorems of this section the form holds a non-empty username and password, so
  the validation passes, and \<open>r\<close> is what the server answers to the POST that
  \<^verbatim>\<open>handleLogin\<close> sends for them.
\<close>

text \<open>
  Claim C3. After a 2xx login response whose body has \<^verbatim>\<open>access_token\<close> "t1",
  \<^verbatim>\<open>token_type\<close> "Bearer" and \<^verbatim>\<open>user\<close> \<^verbatim>\<open>{"username":"alice"}\<close>, on a storage that
  accepts the write, the keys \<^verbatim>\<open>access_token\<close>, \<^verbatim>\<open>token_type\<close> and \<^verbatim>\<open>user_data\<close> hold
  "t1", "Bearer" and the text \<^verbatim>\<open>{"username":"alice"}\<close>; one alert "Welcome back, alice!"
  is raised; no router call has been made yet, and pressing the alert's OK button makes
  the redirect to the authenticated area.
\<close>

theorem handleLogin_success:
  assumes "username st \<noteq> []" and "password st \<noteq> []"
    and "fetch e (login_request (json_text (JObj [(''username'', JStr (trim (username st))),
                                                  (''password'', JStr (password st))])))
           = Resolved r"
    and "ok r" and "body r = Some data"
    and "get_prop data ''access_token'' = Inr (JStr ''t1'')"
    and "get_prop data ''token_type'' = Inr (JStr ''Bearer'')"
    and "get_prop data ''user'' = Inr (JObj [(''username'', JStr ''alice'')])"
    and "\<not> multiSet_throws e"
  shows \<open>storage (handleLogin e st) ''access_token'' = Some ''t1''
         \<and> storage (handleLogin e st) ''token_type'' = Some ''Bearer''
         \<and> storage (handleLogin e st) ''user_data'' = Some ''{"username":"alice"}''
         \<and> added (alerts st) (alerts (handleLogin e st)) =
             [Alert ''Success'' (JStr ''Welcome back, alice!'') [Button ''OK'' (RouterReplace tabs)]]
         \<and> nav (handleLogin e st) = nav st
         \<and> added (nav st) (nav (onPress (Button ''OK'' (RouterReplace tabs)) (handleLogin e st)))
             = [Replace tabs]
         \<and> route (onPress (Button ''OK'' (RouterReplace tabs)) (handleLogin e st)) = Some tabs\<close>
  using assms
  by (auto simp: handleLogin_def effect_defs Let_def added_def session_entries_def
      JSON_stringify_def quote_string_def quote_char_def)

theorem handleLogin_success_witness:
  \<open>ok \<lparr>status = 200, body = Some alice_body\<rparr>
   \<and> get_prop alice_body ''user'' = Inr (JObj [(''username'', JStr ''alice'')])
   \<and> storage (handleLogin (server \<lparr>status = 200, body = Some alice_body\<rparr>)
        (filled_form ''alice'' ''secret'')) ''access_token'' = Some ''t1''
   \<and> storage (handleLogin (server \<lparr>status = 200, body = Some alice_body\<rparr>)
        (filled_form ''alice'' ''secret'')) ''token_type'' = Some ''Bearer''
   \<and> storage (handleLogin (server \<lparr>status = 200, body = Some alice_body\<rparr>)
        (filled_form ''alice'' ''secret'')) ''user_data'' = Some ''{"username":"alice"}''
   \<and> alerts (handleLogin (server \<lparr>status = 200, body = Some alice_body\<rparr>)
        (filled_form ''alice'' ''secret'')) =
       [Alert ''Success'' (JStr ''Welcome back, alice!'')
          [Button ''OK'' (RouterReplace ''/(tabs)'')]]
   \<and> nav (handleLogin (server \<lparr>status = 200, body = Some alice_body\<rparr>)
        (filled_form ''alice'' ''secret'')) = []
   \<and> nav (onPress (Button ''OK'' (RouterReplace ''/(tabs)''))
        (handleLogin (server \<lparr>status = 200, body = Some alice_body\<rparr>)
          (filled_form ''alice'' ''secret''))) = [Replace ''/(tabs)'']\<close>
proof -
  let ?r = "\<lparr>status = 200, body = Some alice_body\<rparr>"
  let ?st = "filled_form ''alice'' ''secret''"
  have h1: "username ?st \<noteq> []" "password ?st \<noteq> []"
    by (simp_all add: filled_form_fields)
  have h2: "fetch (server ?r) (login_request (json_text
      (JObj [(''username'', JStr (trim (username ?st))), (''password'', JStr (password ?st))])))
      = Resolved ?r"
    by (simp add: server_def)
  have h3: "ok ?r" "body ?r = Some alice_body"
    by (simp_all add: ok_def)
  have h4: "get_prop alice_body ''access_token'' = Inr (JStr ''t1'')"
    "get_prop alice_body ''token_type'' = Inr (JStr ''Bearer'')"
    "get_prop alice_body ''user'' = Inr (JObj [(''username'', JStr ''alice'')])"
    by (simp_all add: alice_body_def)
  have h5: "\<not> multiSet_throws (server ?r)"
    by (simp add: server_def)
  show ?thesis
    using h3(1) h4(3) handleLogin_success [OF h1 h2 h3 h4 h5]
    by (simp add: filled_form_fields added_def tabs_def)
qed


text \<open>
  Claim C4, as the code has it. After a login response with a status outside 2xx whose
  body is JSON other than \<^verbatim>\<open>null\<close>, with \<open>err\<close> the value of \<^verbatim>\<open>data.error\<close>
  (\<^verbatim>\<open>undefined\<close> when the field is missing): one alert is raised, showing \<open>err\<close> when it
  is truthy (a non-empty string, say) and "Login failed. Please try again." otherwise; the
  password is cleared, the username kept, and no storage write is issued.
\<close>

theorem handleLogin_failure:
  assumes "username st \<noteq> []" and "password st \<noteq> []"
    and "fetch e (login_request (json_text (JObj [(''username'', JStr (trim (username st))),
                                                  (''password'', JStr (password st))])))
           = Resolved r"
    and "\<not> ok r" and "body r = Some data" and "get_prop data ''error'' = Inr err"
  shows "added (alerts st) (alerts (handleLogin e st)) =
           [Alert ''Error'' (if truthy err then err else JStr ''Login failed. Please try again.'') []]
         \<and> password (handleLogin e st) = []
         \<and> username (handleLogin e st) = username st
         \<and> storage (handleLogin e st) = storage st
         \<and> storage_ops (handleLogin e st) = storage_ops st"
  using assms by (auto simp: handleLogin_def effect_defs Let_def added_def)

theorem handleLogin_failure_witness:
  "\<not> ok \<lparr>status = 401, body = Some (JObj [(''error'', JStr ''bad credentials'')])\<rparr>
   \<and> alerts (handleLogin
        (server \<lparr>status = 401, body = Some (JObj [(''error'', JStr ''bad credentials'')])\<rparr>)
        (filled_form ''alice'' ''secret'')) = [Alert ''Error'' (JStr ''bad credentials'') []]
   \<and> password (handleLogin
        (server \<lparr>status = 401, body = Some (JObj [(''error'', JStr ''bad credentials'')])\<rparr>)
        (filled_form ''alice'' ''secret'')) = []
   \<and> username (handleLogin
        (server \<lparr>status = 401, body = Some (JObj [(''error'', JStr ''bad credentials'')])\<rparr>)
        (filled_form ''alice'' ''secret'')) = ''alice''
   \<and> storage_ops (handleLogin
        (server \<lparr>status = 401, body = Some (JObj [(''error'', JStr ''bad credentials'')])\<rparr>)
        (filled_form ''alice'' ''secret'')) = []
   \<and> \<not> ok \<lparr>status = 404, body = Some (JObj [])\<rparr>
   \<and> alerts (handleLogin (server \<lparr>status = 404, body = Some (JObj [])\<rparr>)
        (filled_form ''alice'' ''secret'')) =
       [Alert ''Error'' (JStr ''Login failed. Please try again.'') []]"
proof -
  let ?r = "\<lparr>status = 401, body = Some (JObj [(''error'', JStr ''bad credentials'')])\<rparr>"
  let ?q = "\<lparr>status = 404, body = Some (JObj [])\<rparr>"
  let ?st = "filled_form ''alice'' ''secret''"
  have h1: "username ?st \<noteq> []" "password ?st \<noteq> []"
    by (simp_all add: filled_form_fields)
  have r2: "fetch (server ?r) (login_request (json_text
      (JObj [(''username'', JStr (trim (username ?st))), (''password'', JStr (password ?st))])))
      = Resolved ?r"
    by (simp add: server_def)
  have r3: "\<not> ok ?r" "body ?r = Some (JObj [(''error'', JStr ''bad credentials'')])"
    "get_prop (JObj [(''error'', JStr ''bad credentials'')]) ''error'' = Inr (JStr ''bad credentials'')"
    by (simp_all add: ok_def)
  have q2: "fetch (server ?q) (login_request (json_text
      (JObj [(''username'', JStr (trim (username ?st))), (''password'', JStr (password ?st))])))
      = Resolved ?q"
    by (simp add: server_def)
  have q3: "\<not> ok ?q" "body ?q = Some (JObj [])" "get_prop (JObj []) ''error'' = Inr JUndefined"
    by (simp_all add: ok_def)
  show ?thesis
    using r3(1) q3(1) handleLogin_failure [OF h1 r2 r3] handleLogin_failure [OF h1 q2 q3]
    by (simp add: filled_form_fields added_def)
qed

text \<open>
  Claim C4 as stated fails on two kinds of response outside 2xx. A body that is not JSON
  makes \<^verbatim>\<open>response.json()\<close> throw before the status is looked at: the alert is the
  network error message and the password is kept. An \<^verbatim>\<open>error\<close> field that is present
  but empty is falsy for \<^verbatim>\<open>data.error || ...\<close>: the alert shows the fallback message, not
  the field.
\<close>

theorem handleLogin_failure_counterexample:
  "\<not> ok \<lparr>status = 500, body = None\<rparr>
   \<and> alerts (handleLogin (server \<lparr>status = 500, body = None\<rparr>)
        (filled_form ''alice'' ''secret'')) =
       [Alert ''Error'' (JStr ''Network error. Please check your connection and try again.'') []]
   \<and> password (handleLogin (server \<lparr>status = 500, body = None\<rparr>)
        (filled_form ''alice'' ''secret'')) = ''secret''
   \<and> \<not> ok \<lparr>status = 401, body = Some (JObj [(''error'', JStr [])])\<rparr>
   \<and> get_prop (JObj [(''error'', JStr [])]) ''error'' = Inr (JStr [])
   \<and> alerts (handleLogin (server \<lparr>status = 401, body = Some (JObj [(''error'', JStr [])])\<rparr>)
        (filled_form ''alice'' ''secret'')) =
       [Alert ''Error'' (JStr ''Login failed. Please try again.'') []]"
  by (simp add: handleLogin_def filled_form_fields effect_defs server_def ok_def Let_def)

text \<open>
  Claim C10. When the login response is 2xx and the \<^verbatim>\<open>multiSet\<close> of the session throws,
  \<^verbatim>\<open>handleLogin\<close> raises one alert, the warning "Login successful but failed to store
  session data", which has no button to press; it makes no router call, stores nothing,
  and the screen stays the login form.
\<close>

theorem handleLogin_storage_failure:
  assumes "username st \<noteq> []" and "password st \<noteq> []"
    and "fetch e (login_request (json_text (JObj [(''username'', JStr (trim (username st))),
                                                  (''password'', JStr (password st))])))
           = Resolved r"
    and "ok r" and "body r = Some data"
    and "get_prop data ''access_token'' = Inr a"
    and "get_prop data ''token_type'' = Inr t"
    and "get_prop data ''user'' = Inr u"
    and "fst (multiSet e (session_entries a t u) st)"
  shows "added (alerts st) (alerts (handleLogin e st)) =
           [Alert ''Warning'' (JStr ''Login successful but failed to store session data'') []]
         \<and> nav (handleLogin e st) = nav st
         \<and> route (handleLogin e st) = route st
         \<and> storage (handleLogin e st) = storage st
         \<and> (route st = None \<and> \<not> isCheckingAuth st \<longrightarrow> view (handleLogin e st) = LoginForm)"
  using assms
  by (auto simp: handleLogin_def effect_defs Let_def added_def view_def split: if_splits)

theorem handleLogin_storage_failure_witness:
  "ok \<lparr>status = 200, body = Some alice_body\<rparr>
   \<and> fst (multiSet (server_disk_full \<lparr>status = 200, body = Some alice_body\<rparr>)
        (session_entries (JStr ''t1'') (JStr ''Bearer'') (JObj [(''username'', JStr ''alice'')]))
        (filled_form ''alice'' ''secret''))
   \<and> alerts (handleLogin (server_disk_full \<lparr>status = 200, body = Some alice_body\<rparr>)
        (filled_form ''alice'' ''secret'')) =
       [Alert ''Warning'' (JStr ''Login successful but failed to store session data'') []]
   \<and> nav (handleLogin (server_disk_full \<lparr>status = 200, body = Some alice_body\<rparr>)
        (filled_form ''alice'' ''secret'')) = []
   \<and> storage (handleLogin (server_disk_full \<lparr>status = 200, body = Some alice_body\<rparr>)
        (filled_form ''alice'' ''secret'')) = Map.empty
   \<and> view (handleLogin (server_disk_full \<lparr>status = 200, body = Some alice_body\<rparr>)
        (filled_form ''alice'' ''secret'')) = LoginForm"
proof -
  let ?r = "\<lparr>status = 200, body = Some alice_body\<rparr>"
  let ?st = "filled_form ''alice'' ''secret''"
  have h1: "username ?st \<noteq> []" "password ?st \<noteq> []"
    by (simp_all add: filled_form_fields)
  have h2: "fetch (server_disk_full ?r) (login_request (json_text
      (JObj [(''username'', JStr (trim (username ?st))), (''password'', JStr (password ?st))])))
      = Resolved ?r"
    by (simp add: server_disk_full_def server_def)
  have h3: "ok ?r" "body ?r = Some alice_body"
    by (simp_all add: ok_def)
  have h4: "get_prop alice_body ''access_token'' = Inr (JStr ''t1'')"
    "get_prop alice_body ''token_type'' = Inr (JStr ''Bearer'')"
    "get_prop alice_body ''user'' = Inr (JObj [(''username'', JStr ''alice'')])"
    by (simp_all add: alice_body_def)
  have h5: "fst (multiSet (server_disk_full ?r)
      (session_entries (JStr ''t1'') (JStr ''Bearer'') (JObj [(''username'', JStr ''alice'')])) ?st)"
    by (simp add: multiSet_def server_disk_full_def server_def Let_def)
  show ?thesis
    using h3(1) h5 handleLogin_storage_failure [OF h1 h2 h3 h4 h5]
    by (simp add: filled_form_fields added_def)
qed


text \<open>
  Claim C7. \<^verbatim>\<open>handleLogin\<close> ends with the busy flag cleared whatever the outside world
  answers (network throw, unreadable body, 2xx, storage failure, non-2xx): always once
  the validation has passed, and also after a failed validation when the handler was
  started from an idle form, the only state in which the disabled button lets it start.
\<close>

theorem handleLogin_clears_busy:
  assumes "(username st \<noteq> [] \<and> password st \<noteq> []) \<or> \<not> isLoading st"
  shows "\<not> isLoading (handleLogin e st)"
  using assms
  by (auto simp: handleLogin_def effect_defs Let_def
      split: fetch_outcome.splits option.splits sum.splits prod.splits if_splits)

theorem handleLogin_clears_busy_witness:
  "\<not> isLoading (handleLogin offline (filled_form ''alice'' ''secret''))
   \<and> \<not> isLoading (handleLogin (server \<lparr>status = 200, body = Some alice_body\<rparr>)
        (filled_form ''alice'' ''secret''))
   \<and> \<not> isLoading (handleLogin (server_disk_full \<lparr>status = 200, body = Some alice_body\<rparr>)
        (filled_form ''alice'' ''secret''))
   \<and> \<not> isLoading (handleLogin (server \<lparr>status = 401, body = Some (JObj [])\<rparr>)
        (filled_form ''alice'' ''secret''))
   \<and> \<not> isLoading (handleLogin (server \<lparr>status = 502, body = None\<rparr>)
        (filled_form ''alice'' ''secret''))
   \<and> \<not> isLoading (handleLogin offline (filled_form [] []))"
proof -
  have pass: "(username (filled_form ''alice'' ''secret'') \<noteq> []
      \<and> password (filled_form ''alice'' ''secret'') \<noteq> [])
      \<or> \<not> isLoading (filled_form ''alice'' ''secret'')"
    by (simp add: filled_form_fields)
  have idle: "(username (filled_form [] []) \<noteq> [] \<and> password (filled_form [] []) \<noteq> [])
      \<or> \<not> isLoading (filled_form [] [])"
    by (simp add: filled_form_fields)
  show ?thesis
    using handleLogin_clears_busy [OF pass] handleLogin_clears_busy [OF idle]
    by simp
qed

text \<open>On the screen as a whole the busy flag is clear after every event.\<close>

lemma dispatch_keeps_idle: "\<not> isLoading s \<Longrightarrow> \<not> isLoading (dispatch e ev s)"
proof (cases ev)
  case MountEffect
  assume "\<not> isLoading s"
  then show ?thesis
    unfolding MountEffect
    by (auto simp: checkExistingAuth_def effect_defs Let_def
        split: fetch_outcome.splits option.splits if_splits)
next
  case PressLogin
  assume "\<not> isLoading s"
  then show ?thesis
    unfolding PressLogin
    by (auto simp: handleLogin_def effect_defs Let_def
        split: fetch_outcome.splits option.splits sum.splits prod.splits if_splits)
next
  case (PressAlertButton b)
  assume "\<not> isLoading s"
  then show ?thesis
    unfolding PressAlertButton
    by (cases "(b, s)" rule: onPress.cases) (simp add: effect_defs)
qed (simp_all add: effect_defs handleForgotPassword_def handleSignUp_def
    togglePasswordVisibility_def)

lemma run_keeps_idle: "\<not> isLoading s \<Longrightarrow> \<not> isLoading (run evs s)"
  by (induction evs arbitrary: s) (auto simp: dispatch_keeps_idle)

lemma screen_never_left_busy: "\<not> isLoading (run evs (mounted m))"
  by (rule run_keeps_idle) (simp add: mounted_def)


section \<open>The session triple in storage\<close>

lemma session_step_refl: "session_step s s"
  by (simp add: session_step_def)

lemma session_step_trans:
  "session_step s s' \<Longrightarrow> session_step s' s'' \<Longrightarrow> session_step s s''"
  unfolding session_step_def by (elim conjE exE) (auto simp del: session_op.simps)

lemma checkExistingAuth_session_step: "session_step st (checkExistingAuth e st)"
  by (auto simp: session_step_def checkExistingAuth_def effect_defs Let_def auth_keys_def
      split: if_splits option.splits fetch_outcome.splits)

lemma handleLogin_session_step: "session_step st (handleLogin e st)"
  by (auto simp: session_step_def handleLogin_def effect_defs Let_def auth_keys_def
      session_entries_def split: if_splits option.splits fetch_outcome.splits sum.splits)

lemma onPress_session_step: "session_step st (onPress b st)"
  by (cases "(b, st)" rule: onPress.cases) (simp add: session_step_def effect_defs)

lemma dispatch_session_step: "session_step s (dispatch e ev s)"
  by (cases ev)
    (simp_all add: checkExistingAuth_session_step handleLogin_session_step
      onPress_session_step session_step_refl,
     simp_all add: session_step_def effect_defs handleForgotPassword_def handleSignUp_def
      togglePasswordVisibility_def)

lemma run_session_step: "session_step s (run evs s)"
proof (induction evs arbitrary: s)
  case Nil
  show ?case by (simp add: session_step_refl)
next
  case (Cons x evs)
  obtain e ev where x: "x = (e, ev)" by (cases x)
  show ?case
    unfolding x run.simps
    by (rule session_step_trans [OF dispatch_session_step Cons.IH])
qed

text \<open>
  Claim C8. Over any sequence of events on the screen, in any outside worlds: every
  storage write that was issued sets the three session keys together or removes the three
  together; the storage is as it was at the start, or holds all three keys, or holds none;
  hence a storage that started with all three keys or with none of them is again in
  such a state at the end. (A storage call that throws is taken to have written nothing.)
\<close>

theorem session_triple_all_or_none:
  "(\<forall>op \<in> set (added (storage_ops s) (storage_ops (run evs s))). session_op op)
   \<and> (storage (run evs s) = storage s
      \<or> (\<forall>k \<in> set auth_keys. storage (run evs s) k \<noteq> None)
      \<or> (\<forall>k \<in> set auth_keys. storage (run evs s) k = None))
   \<and> (all_or_none (storage s) \<longrightarrow> all_or_none (storage (run evs s)))"
  using run_session_step [of s evs]
  unfolding session_step_def all_or_none_def added_def
  by (auto simp: list_all_iff simp del: session_op.simps)


theorem session_triple_all_or_none_witness:
  \<open>all_or_none (storage (mounted (stored_session ''t0'' ''Bearer'' ''{}'')))
   \<and> storage_ops (run sample_visit (mounted (stored_session ''t0'' ''Bearer'' ''{}''))) =
       [MultiRemove [''access_token'', ''token_type'', ''user_data''],
        MultiSet [(''access_token'', JStr ''t1''), (''token_type'', JStr ''Bearer''),
                  (''user_data'', JStr ''{"username":"alice"}'')]]
   \<and> storage (run sample_visit (mounted (stored_session ''t0'' ''Bearer'' ''{}'')))
        ''access_token'' = Some ''t1''
   \<and> all_or_none (storage (run sample_visit (mounted (stored_session ''t0'' ''Bearer'' ''{}''))))\<close>
proof -
  let ?s = "mounted (stored_session ''t0'' ''Bearer'' ''{}'')"
  have start: "all_or_none (storage ?s)"
    by (simp add: all_or_none_def auth_keys_def fixture_defs)
  have mount: "dispatch (server \<lparr>status = 401, body = None\<rparr>) MountEffect ?s =
      ?s\<lparr>isCheckingAuth := False, storage := Map.empty,
          frames := [LoadingScreen, LoadingScreen, LoginForm],
          requests := [verify_request (Some ''Bearer'') (Some ''t0'')],
          storage_ops := [MultiRemove auth_keys]\<rparr>"
    by (simp add: checkExistingAuth_def effect_defs Let_def view_def auth_keys_def
        fixture_defs ok_def fun_eq_iff)
  have ops: \<open>storage_ops (run sample_visit ?s) =
      [MultiRemove [''access_token'', ''token_type'', ''user_data''],
       MultiSet [(''access_token'', JStr ''t1''), (''token_type'', JStr ''Bearer''),
                 (''user_data'', JStr ''{"username":"alice"}'')]]\<close>
    unfolding sample_visit_def run.simps mount
    by (simp add: handleLogin_def effect_defs Let_def auth_keys_def session_entries_def
        JSON_stringify_def quote_string_def quote_char_def server_def ok_def mounted_def)
  have token: "storage (run sample_visit ?s) ''access_token'' = Some ''t1''"
    unfolding sample_visit_def run.simps mount
    by (simp add: handleLogin_def effect_defs Let_def auth_keys_def session_entries_def
        JSON_stringify_def server_def ok_def mounted_def)
  show ?thesis
    using start ops token session_triple_all_or_none [of ?s sample_visit]
    by simp
qed

end
